theory Spec2Isabelle
  imports Main
begin

section \<open>Growatt solar inverter sensor platform (sensor.py)\<close>

text \<open>
  A shallow embedding of \<^verbatim>\<open>custom_components/growatt_solar_modbus/sensor.py\<close>.
  Python strings are \<^typ>\<open>string\<close>, Python's \<^verbatim>\<open>None\<close> as a result is
  \<^term>\<open>None\<close> of an option type, and a raised exception is the \<^term>\<open>Inl\<close>
  branch of a sum type.
\<close>

subsection \<open>Attribute descriptors and the platform's enumerations\<close>

text \<open>
  An attribute descriptor is the dictionary the client reports for each attribute; the
  source reads its keys \<^verbatim>\<open>"name"\<close>, \<^verbatim>\<open>"description"\<close> and \<^verbatim>\<open>"unit"\<close>.
\<close>

record attr =
  name :: string
  description :: string
  unit :: string

text \<open>The members of the platform's \<^verbatim>\<open>SensorStateClass\<close> enumeration.\<close>

datatype SensorStateClass = MEASUREMENT | TOTAL | TOTAL_INCREASING

text \<open>The members of the platform's \<^verbatim>\<open>SensorDeviceClass\<close> enumeration that the source names.\<close>

datatype SensorDeviceClass = ENERGY | POWER | VOLTAGE | CURRENT | BATTERY

text \<open>
  \<^verbatim>\<open>s.endswith(suf)\<close>: the last \<^verbatim>\<open>len(suf)\<close> characters of \<^verbatim>\<open>s\<close> are \<^verbatim>\<open>suf\<close>.
\<close>

definition endswith :: "string \<Rightarrow> string \<Rightarrow> bool" where
  "endswith s suf =
     (length suf \<le> length s \<and> drop (length s - length suf) s = suf)"

text \<open>
  \<^verbatim>\<open>
  def sensor_state_class(attr):
      if attr["name"].endswith("lifetime") or attr["name"].endswith("today"):
          return SensorStateClass.TOTAL_INCREASING
      return None
  \<close>
\<close>

definition sensor_state_class :: "attr \<Rightarrow> SensorStateClass option" where
  "sensor_state_class a =
     (if endswith (name a) ''lifetime'' \<or> endswith (name a) ''today''
      then Some TOTAL_INCREASING
      else None)"

text \<open>
  \<^verbatim>\<open>
  def sensor_device_class(attr):
      unit = attr["unit"]
      if unit == "kWh": return SensorDeviceClass.ENERGY
      if unit == "kW":  return SensorDeviceClass.POWER
      if unit == "V":   return SensorDeviceClass.VOLTAGE
      if unit == "A":   return SensorDeviceClass.CURRENT
      if unit == "%":   return SensorDeviceClass.BATTERY
      return None
  \<close>
\<close>

definition sensor_device_class :: "attr \<Rightarrow> SensorDeviceClass option" where
  "sensor_device_class a =
     (let u = unit a in
      if u = ''kWh'' then Some ENERGY
      else if u = ''kW'' then Some POWER
      else if u = ''V'' then Some VOLTAGE
      else if u = ''A'' then Some CURRENT
      else if u = ''%'' then Some BATTERY
      else None)"

definition unit_of_measurement :: "attr \<Rightarrow> string" where
  "unit_of_measurement a = unit a"

subsection \<open>The external client\<close>

text \<open>
  \<^verbatim>\<open>growatt_client.GrowattClient\<close> is an external collaborator. What the platform
  sees of it is fixed here: whether \<^verbatim>\<open>update_hardware_info()\<close> raises or makes a
  serial number available, and the attribute catalogue of \<^verbatim>\<open>get_attributes()\<close>.
  The field \<open>update_calls\<close> is the client's own state: how often
  \<^verbatim>\<open>async_update()\<close> has been called on it. What a call of
  \<^verbatim>\<open>async_update()\<close> does is decided by the device at the time of the call: it
  is the argument \<open>resp\<close>, an exception (\<^term>\<open>Inl\<close>) or a mapping from
  attribute names to values (\<^term>\<open>Inr\<close>). A mapping is an association list in the
  dictionary's order, read with \<^const>\<open>map_of\<close>; \<open>'e\<close> is the type of the
  client's exceptions and \<open>'v\<close> the type of the attribute values.
\<close>

record 'e GrowattClient =
  hardware_info :: "'e + string"
  attributes :: "attr list"
  update_calls :: nat

definition update_hardware_info :: "'e GrowattClient \<Rightarrow> 'e + unit" where
  "update_hardware_info c = (case hardware_info c of Inl e \<Rightarrow> Inl e | Inr _ \<Rightarrow> Inr ())"

definition get_serial_number :: "'e GrowattClient \<Rightarrow> string" where
  "get_serial_number c = (case hardware_info c of Inl _ \<Rightarrow> [] | Inr s \<Rightarrow> s)"

definition get_attributes :: "'e GrowattClient \<Rightarrow> attr list" where
  "get_attributes c = attributes c"

definition async_update ::
  "('e + (string \<times> 'v) list) \<Rightarrow> 'e GrowattClient \<Rightarrow>
     ('e + (string \<times> 'v) list) \<times> 'e GrowattClient" where
  "async_update resp c = (resp, c\<lparr>update_calls := Suc (update_calls c)\<rparr>)"

subsection \<open>The probe\<close>

text \<open>
  The attribute \<^verbatim>\<open>self.data\<close> holds the empty list \<^verbatim>\<open>[]\<close> after
  \<^verbatim>\<open>__init__\<close> and the mapping returned by the client after a fetch. The three
  operations the source applies to it are \<^verbatim>\<open>name in data\<close>, \<^verbatim>\<open>data[key]\<close>
  and \<^verbatim>\<open>bool(data)\<close>.
\<close>

datatype 'v pydata = EmptyList | Dict "(string \<times> 'v) list"

datatype pyerr = KeyError | TypeError

fun contains :: "'v pydata \<Rightarrow> string \<Rightarrow> bool" where
  "contains EmptyList k = False"
| "contains (Dict d) k = (k \<in> set (map fst d))"

fun getitem :: "'v pydata \<Rightarrow> string \<Rightarrow> pyerr + 'v" where
  "getitem EmptyList k = Inl TypeError"
| "getitem (Dict d) k = (case map_of d k of None \<Rightarrow> Inl KeyError | Some v \<Rightarrow> Inr v)"

fun truthy :: "'v pydata \<Rightarrow> bool" where
  "truthy EmptyList = False"
| "truthy (Dict d) = (d \<noteq> [])"

text \<open>
  The probe object: the client it refers to, the cached data, and the time of the last
  run that the throttle keeps for this object (\<^term>\<open>None\<close>: never run).
\<close>

record ('e, 'v) GrowattClientDataProbe =
  client :: "'e GrowattClient"
  data :: "'v pydata"
  last_run :: "int option"

text \<open>
  \<^verbatim>\<open>
  def __init__(self, client):
      self.client = client
      self.data = []
  \<close>
\<close>

definition init :: "'e GrowattClient \<Rightarrow> ('e, 'v) GrowattClientDataProbe" where
  "init c = \<lparr>client = c, data = EmptyList, last_run = None\<rparr>"

text \<open>\<^verbatim>\<open>SCAN_INTERVAL = timedelta(seconds=30)\<close>; times are in seconds.\<close>

definition SCAN_INTERVAL :: int where
  "SCAN_INTERVAL = 30"

text \<open>
  Modelled from the spec: the decorator \<^verbatim>\<open>Throttle\<close> of the host platform
  (\<^verbatim>\<open>homeassistant.util\<close>) is not among the sources. The specification describes
  it as a guard kept on the probe, the time of the last call that performed a fetch
  and the interval, checked at the top of the refresh: a call is skipped when less than
  the interval has elapsed since the last call that performed a fetch, and a probe that
  has never fetched is not throttled.
\<close>

definition throttled :: "int option \<Rightarrow> int \<Rightarrow> bool" where
  "throttled prev now = (case prev of None \<Rightarrow> False | Some t \<Rightarrow> now - t < SCAN_INTERVAL)"

text \<open>
  \<^verbatim>\<open>
  @Throttle(SCAN_INTERVAL)
  async def update(self):
      self.data = await self.client.async_update()
      _LOGGER.debug("Updated: %s", self.data)
  \<close>
  The argument \<open>now\<close> is the time of the call and \<open>resp\<close> what the
  client does if the call reaches it. A throttled call returns
  \<^verbatim>\<open>None\<close> and runs nothing. Otherwise the body runs: an exception of the
  client leaves the body before the assignment and reaches the caller, the body having
  no handler.
\<close>

definition update ::
  "('e + (string \<times> 'v) list) \<Rightarrow> int \<Rightarrow> ('e, 'v) GrowattClientDataProbe \<Rightarrow>
     ('e + unit) \<times> ('e, 'v) GrowattClientDataProbe" where
  "update resp now p =
     (if throttled (last_run p) now then (Inr (), p)
      else
        (case async_update resp (client p) of
           (Inl e, c') \<Rightarrow> (Inl e, p\<lparr>client := c', last_run := Some now\<rparr>)
         | (Inr r, c') \<Rightarrow> (Inr (), p\<lparr>client := c', last_run := Some now, data := Dict r\<rparr>)))"

text \<open>
  The host calls \<^verbatim>\<open>update\<close> again and again; a run is the list of the calls'
  times, each with what the client does if that call reaches it.
\<close>

fun updates ::
  "(int \<times> ('e + (string \<times> 'v) list)) list \<Rightarrow> ('e, 'v) GrowattClientDataProbe \<Rightarrow>
     ('e, 'v) GrowattClientDataProbe" where
  "updates [] p = p"
| "updates ((now, resp) # calls) p = updates calls (snd (update resp now p))"

text \<open>
  A run fetched when one of its calls was not throttled and the client returned a
  mapping to it: a successful refresh.
\<close>

fun fetched ::
  "(int \<times> ('e + (string \<times> 'v) list)) list \<Rightarrow> ('e, 'v) GrowattClientDataProbe \<Rightarrow> bool" where
  "fetched [] p = False"
| "fetched ((now, resp) # calls) p =
     (if \<not> throttled (last_run p) now \<and> \<not> isl resp then True
      else fetched calls (snd (update resp now p)))"

text \<open>
  \<^verbatim>\<open>
  def get_data(self, name):
      if name not in self.data:
          return None
      return self.data[str(name)]
  \<close>
  The name is a string, so \<^verbatim>\<open>str(name)\<close> is the name itself.
\<close>

definition get_data :: "('e, 'v) GrowattClientDataProbe \<Rightarrow> string \<Rightarrow> pyerr + 'v option" where
  "get_data p n =
     (if \<not> contains (data p) n then Inr None
      else (case getitem (data p) n of Inl e \<Rightarrow> Inl e | Inr v \<Rightarrow> Inr (Some v)))"

text \<open>
  \<^verbatim>\<open>
  def has_data(self):
      """Checks if probe has any data"""
      return bool(self.data)
  \<close>
\<close>

definition has_data :: "('e, 'v) GrowattClientDataProbe \<Rightarrow> bool" where
  "has_data p = truthy (data p)"

text \<open>
  \<^verbatim>\<open>
  def __format__(self, key: str) -> str:
      value = self.get_data(key)
      if value is None:
          return ""
      return str(value)
  \<close>
  Python's \<^verbatim>\<open>str\<close> on attribute values is the parameter \<open>str\<close>.
\<close>

definition format_probe ::
  "('v \<Rightarrow> string) \<Rightarrow> ('e, 'v) GrowattClientDataProbe \<Rightarrow> string \<Rightarrow> pyerr + string" where
  "format_probe str p k =
     (case get_data p k of
        Inl e \<Rightarrow> Inl e
      | Inr None \<Rightarrow> Inr []
      | Inr (Some v) \<Rightarrow> Inr (str v))"

subsection \<open>Sensors\<close>

text \<open>
  The platform's \<^verbatim>\<open>SensorEntityDescription\<close> and \<^verbatim>\<open>DeviceInfo\<close>, with the
  fields the source sets; \<open>ed_name\<close> and \<open>di_name\<close> are their fields
  \<^verbatim>\<open>name\<close>.
\<close>

record SensorEntityDescription =
  key :: string
  ed_name :: string
  native_unit_of_measurement :: string
  device_class :: "SensorDeviceClass option"
  state_class :: "SensorStateClass option"

datatype DeviceEntryType = SERVICE

record DeviceInfo =
  entry_type :: DeviceEntryType
  identifiers :: "(string \<times> string) list"
  manufacturer :: string
  di_name :: string

text \<open>
  \<^verbatim>\<open>
  def create_sensor_entity_description(attr):
      return SensorEntityDescription(
          key=attr["name"],
          name=attr["description"],
          native_unit_of_measurement=unit_of_measurement(attr),
          device_class=sensor_device_class(attr),
          state_class=sensor_state_class(attr),
      )
  \<close>
\<close>

definition create_sensor_entity_description :: "attr \<Rightarrow> SensorEntityDescription" where
  "create_sensor_entity_description a =
     \<lparr>key = name a,
      ed_name = description a,
      native_unit_of_measurement = unit_of_measurement a,
      device_class = sensor_device_class a,
      state_class = sensor_state_class a\<rparr>"

text \<open>
  A sensor refers to the probe it was given; all sensors of one device refer to the same
  probe object, so the sensor's operations take that probe as an argument. The
  field \<^verbatim>\<open>template\<close> is always \<^verbatim>\<open>None\<close> and is never read.
\<close>

record GrowattClientSensor =
  entity_description :: SensorEntityDescription
  attr_unique_id :: string
  attr_name :: string
  attr_device_info :: DeviceInfo

text \<open>
  \<^verbatim>\<open>
  def __init__(self, name, serial, description, probe, template=None):
      self.probe = probe
      self.entity_description = description
      self._attr_unique_id = serial + "_" + description.key
      self._attr_name = f"{name} {description.name}"
      self._attr_device_info = DeviceInfo(
          entry_type=DeviceEntryType.SERVICE,
          identifiers={(DOMAIN, serial)},
          manufacturer="Growatt",
          name=name,
      )
  \<close>
  \<^verbatim>\<open>DOMAIN\<close> is a constant of the integration's \<^verbatim>\<open>const\<close> module, taken as a
  parameter.
\<close>

definition sensor_init ::
  "string \<Rightarrow> string \<Rightarrow> string \<Rightarrow> SensorEntityDescription \<Rightarrow> GrowattClientSensor" where
  "sensor_init DOMAIN nm serial d =
     \<lparr>entity_description = d,
      attr_unique_id = serial @ ''_'' @ key d,
      attr_name = nm @ '' '' @ ed_name d,
      attr_device_info =
        \<lparr>entry_type = SERVICE,
         identifiers = [(DOMAIN, serial)],
         manufacturer = ''Growatt'',
         di_name = nm\<rparr>\<rparr>"

definition available :: "('e, 'v) GrowattClientDataProbe \<Rightarrow> GrowattClientSensor \<Rightarrow> bool" where
  "available p s = has_data p"

definition native_value ::
  "('e, 'v) GrowattClientDataProbe \<Rightarrow> GrowattClientSensor \<Rightarrow> pyerr + 'v option" where
  "native_value p s = get_data p (key (entity_description s))"

definition sensor_async_update ::
  "('e + (string \<times> 'v) list) \<Rightarrow> int \<Rightarrow> ('e, 'v) GrowattClientDataProbe \<Rightarrow>
     GrowattClientSensor \<Rightarrow> ('e + unit) \<times> ('e, 'v) GrowattClientDataProbe" where
  "sensor_async_update resp now p s = update resp now p"

subsection \<open>Configuration and setup\<close>

text \<open>
  \<^verbatim>\<open>
  PLATFORM_SCHEMA = PLATFORM_SCHEMA.extend({
      vol.Required(CONF_PORT): cv.string,
      vol.Optional(CONF_ADDRESS, default=1): cv.positive_int,
      vol.Optional(CONF_NAME, default=""): cv.string,
  })
  \<close>
  The configuration as written by the user may lack any of the three options; the
  validated configuration, which setup reads, has them all. The platform's validator
  \<^verbatim>\<open>cv.positive_int\<close> is the parameter \<open>positive_int\<close>.
\<close>

record platform_config =
  port :: "string option"
  address :: "int option"
  display_name :: "string option"

record ConfigType =
  CONF_PORT :: string
  CONF_ADDRESS :: int
  CONF_NAME :: string

datatype Invalid = RequiredKeyMissing | InvalidValue

definition PLATFORM_SCHEMA :: "(int \<Rightarrow> bool) \<Rightarrow> platform_config \<Rightarrow> Invalid + ConfigType" where
  "PLATFORM_SCHEMA positive_int raw =
     (case port raw of
        None \<Rightarrow> Inl RequiredKeyMissing
      | Some p \<Rightarrow>
          (let a = (case address raw of None \<Rightarrow> 1 | Some a \<Rightarrow> a);
               n = (case display_name raw of None \<Rightarrow> [] | Some n \<Rightarrow> n)
           in if positive_int a
              then Inr \<lparr>CONF_PORT = p, CONF_ADDRESS = a, CONF_NAME = n\<rparr>
              else Inl InvalidValue))"

text \<open>
  \<^verbatim>\<open>
  async def async_setup_platform(hass, config, async_add_entities, discovery_info=None):
      port = config[CONF_PORT]
      address = config[CONF_ADDRESS]
      name = config[CONF_NAME]
      client = GrowattClient(port, address)
      await client.update_hardware_info()
      serial_number = client.get_serial_number()
      probe = GrowattClientDataProbe(client)
      if name == "":
          name = serial_number
      sensors = [
          GrowattClientSensor(name, serial_number, create_sensor_entity_description(attr), probe)
          for attr in client.get_attributes()
      ]
      async_add_entities(sensors, update_before_add=True)
  \<close>
  The constructor of the external client is the parameter \<open>mk_client\<close>. The result
  is the exception of \<^verbatim>\<open>update_hardware_info()\<close>, or the probe and the
  sensors handed to \<^verbatim>\<open>async_add_entities\<close>.
\<close>

definition async_setup_platform ::
  "string \<Rightarrow> (string \<Rightarrow> int \<Rightarrow> 'e GrowattClient) \<Rightarrow> ConfigType \<Rightarrow>
     'e + (('e, 'v) GrowattClientDataProbe \<times> GrowattClientSensor list)" where
  "async_setup_platform DOMAIN mk_client config =
     (let client = mk_client (CONF_PORT config) (CONF_ADDRESS config) in
      case update_hardware_info client of
        Inl e \<Rightarrow> Inl e
      | Inr _ \<Rightarrow>
          (let serial_number = get_serial_number client;
               probe = init client;
               nm = (if CONF_NAME config = [] then serial_number else CONF_NAME config)
           in Inr (probe,
                map (\<lambda>a. sensor_init DOMAIN nm serial_number (create_sensor_entity_description a))
                  (get_attributes client))))"

subsection \<open>An example device\<close>

text \<open>
  The scenario of the specification: a device with serial number \<^verbatim>\<open>SN123\<close> and
  the attributes \<^verbatim>\<open>power_now\<close> and \<^verbatim>\<open>energy_today\<close>, a reading of both,
  and a probe that cached this reading at time 100.
\<close>

definition example_client :: "string GrowattClient" where
  "example_client =
     \<lparr>hardware_info = Inr ''SN123'',
      attributes =
        [\<lparr>name = ''power_now'', description = ''Power now'', unit = ''kW''\<rparr>,
         \<lparr>name = ''energy_today'', description = ''Energy today'', unit = ''kWh''\<rparr>],
      update_calls = 0\<rparr>"

definition example_reading :: "(string \<times> int) list" where
  "example_reading = [(''power_now'', 25), (''energy_today'', 100)]"

definition example_probe :: "(string, int) GrowattClientDataProbe" where
  "example_probe = \<lparr>client = example_client, data = Dict example_reading, last_run = Some 100\<rparr>"

text \<open>
  A configuration that gives the port only, and a validated configuration with a display
  name.
\<close>

definition example_platform_config :: platform_config where
  "example_platform_config = \<lparr>port = Some ''/dev/ttyUSB0'', address = None, display_name = None\<rparr>"

definition example_config :: ConfigType where
  "example_config = \<lparr>CONF_PORT = ''/dev/ttyUSB0'', CONF_ADDRESS = 1, CONF_NAME = ''Inverter''\<rparr>"

section \<open>Properties\<close>

subsection \<open>Classification of attributes\<close>

text \<open>\<^const>\<open>endswith\<close> holds exactly when the second string is a suffix of the first.\<close>

lemma endswith_iff: "endswith s suf \<longleftrightarrow> (\<exists>pre. s = pre @ suf)"
proof
  assume "endswith s suf"
  then have "s = take (length s - length suf) s @ suf"
    unfolding endswith_def by (metis append_take_drop_id)
  then show "\<exists>pre. s = pre @ suf" by blast
next
  assume "\<exists>pre. s = pre @ suf"
  then obtain pre where "s = pre @ suf" by blast
  then show "endswith s suf" by (simp add: endswith_def)
qed

text \<open>
  Claim C6: the device class of an attribute is decided by its unit string alone:
  \<^verbatim>\<open>kWh\<close> gives energy, \<^verbatim>\<open>kW\<close> power, \<^verbatim>\<open>V\<close> voltage, \<^verbatim>\<open>A\<close>
  current, \<^verbatim>\<open>%\<close> battery level, and every other unit gives no device class.
\<close>

theorem sensor_device_class_table:
  "(unit a = ''kWh'' \<longrightarrow> sensor_device_class a = Some ENERGY) \<and>
   (unit a = ''kW'' \<longrightarrow> sensor_device_class a = Some POWER) \<and>
   (unit a = ''V'' \<longrightarrow> sensor_device_class a = Some VOLTAGE) \<and>
   (unit a = ''A'' \<longrightarrow> sensor_device_class a = Some CURRENT) \<and>
   (unit a = ''%'' \<longrightarrow> sensor_device_class a = Some BATTERY) \<and>
   (unit a \<notin> {''kWh'', ''kW'', ''V'', ''A'', ''%''} \<longrightarrow> sensor_device_class a = None)"
  by (simp add: sensor_device_class_def)

theorem sensor_device_class_table_witness:
  "sensor_device_class \<lparr>name = ''energy_today'', description = ''Energy today'', unit = ''kWh''\<rparr> = Some ENERGY \<and>
   sensor_device_class \<lparr>name = ''power_now'', description = ''Power'', unit = ''kW''\<rparr> = Some POWER \<and>
   sensor_device_class \<lparr>name = ''grid_voltage'', description = ''Grid voltage'', unit = ''V''\<rparr> = Some VOLTAGE \<and>
   sensor_device_class \<lparr>name = ''grid_current'', description = ''Grid current'', unit = ''A''\<rparr> = Some CURRENT \<and>
   sensor_device_class \<lparr>name = ''soc'', description = ''State of charge'', unit = ''%''\<rparr> = Some BATTERY \<and>
   sensor_device_class \<lparr>name = ''other'', description = ''Other'', unit = ''XYZ''\<rparr> = None"
  using sensor_device_class_table [of "\<lparr>name = ''energy_today'', description = ''Energy today'', unit = ''kWh''\<rparr>"]
    sensor_device_class_table [of "\<lparr>name = ''power_now'', description = ''Power'', unit = ''kW''\<rparr>"]
    sensor_device_class_table [of "\<lparr>name = ''grid_voltage'', description = ''Grid voltage'', unit = ''V''\<rparr>"]
    sensor_device_class_table [of "\<lparr>name = ''grid_current'', description = ''Grid current'', unit = ''A''\<rparr>"]
    sensor_device_class_table [of "\<lparr>name = ''soc'', description = ''State of charge'', unit = ''%''\<rparr>"]
    sensor_device_class_table [of "\<lparr>name = ''other'', description = ''Other'', unit = ''XYZ''\<rparr>"]
  by simp

text \<open>
  Claim C4 says that a name ending in neither \<^verbatim>\<open>lifetime\<close> nor \<^verbatim>\<open>today\<close>
  gets the instantaneous-measurement classification. For the name \<^verbatim>\<open>power_now\<close>
  the function returns \<^verbatim>\<open>None\<close>, no state class at all, and not the platform's
  measurement class.
\<close>

theorem sensor_state_class_power_now_not_measurement:
  "sensor_state_class \<lparr>name = ''power_now'', description = ''Power'', unit = ''kW''\<rparr> = None \<and>
   sensor_state_class \<lparr>name = ''power_now'', description = ''Power'', unit = ''kW''\<rparr> \<noteq> Some MEASUREMENT"
  by (simp add: sensor_state_class_def endswith_def)

text \<open>
  Claim C4, amended: a name that ends with \<^verbatim>\<open>lifetime\<close> or \<^verbatim>\<open>today\<close> gets
  the cumulative, monotonically increasing state class, and every other name gets no
  state class (\<^verbatim>\<open>None\<close>). In particular \<^verbatim>\<open>energy_today\<close> is cumulative and
  \<^verbatim>\<open>power_now\<close> has no state class.
\<close>

theorem sensor_state_class_by_suffix:
  "(endswith (name a) ''lifetime'' \<or> endswith (name a) ''today''
      \<longrightarrow> sensor_state_class a = Some TOTAL_INCREASING) \<and>
   (\<not> endswith (name a) ''lifetime'' \<and> \<not> endswith (name a) ''today''
      \<longrightarrow> sensor_state_class a = None) \<and>
   (name a = ''energy_today'' \<longrightarrow> sensor_state_class a = Some TOTAL_INCREASING) \<and>
   (name a = ''power_now'' \<longrightarrow> sensor_state_class a = None)"
proof -
  have today: "endswith ''energy_today'' ''today''" by (simp add: endswith_def)
  have now: "\<not> endswith ''power_now'' ''lifetime''" "\<not> endswith ''power_now'' ''today''"
    by (simp_all add: endswith_def)
  show ?thesis
    using today now by (auto simp: sensor_state_class_def)
qed

theorem sensor_state_class_by_suffix_witness:
  "sensor_state_class \<lparr>name = ''energy_lifetime'', description = ''Energy total'', unit = ''kWh''\<rparr> = Some TOTAL_INCREASING \<and>
   sensor_state_class \<lparr>name = ''energy_today'', description = ''Energy today'', unit = ''kWh''\<rparr> = Some TOTAL_INCREASING \<and>
   sensor_state_class \<lparr>name = ''grid_voltage'', description = ''Grid voltage'', unit = ''V''\<rparr> = None \<and>
   sensor_state_class \<lparr>name = ''power_now'', description = ''Power'', unit = ''kW''\<rparr> = None"
  using sensor_state_class_by_suffix [of "\<lparr>name = ''energy_lifetime'', description = ''Energy total'', unit = ''kWh''\<rparr>"]
    sensor_state_class_by_suffix [of "\<lparr>name = ''energy_today'', description = ''Energy today'', unit = ''kWh''\<rparr>"]
    sensor_state_class_by_suffix [of "\<lparr>name = ''grid_voltage'', description = ''Grid voltage'', unit = ''V''\<rparr>"]
    sensor_state_class_by_suffix [of "\<lparr>name = ''power_now'', description = ''Power'', unit = ''kW''\<rparr>"]
  by (simp add: endswith_def)

subsection \<open>The probe\<close>

text \<open>The three ways a call of \<^const>\<open>update\<close> can go.\<close>

lemma update_throttled:
  "throttled (last_run p) now \<Longrightarrow> update resp now p = (Inr (), p)"
  by (simp add: update_def)

lemma update_raises:
  "\<not> throttled (last_run p) now \<Longrightarrow>
   update (Inl e) now p =
     (Inl e, p\<lparr>client := (client p)\<lparr>update_calls := Suc (update_calls (client p))\<rparr>,
               last_run := Some now\<rparr>)"
  by (simp add: update_def async_update_def)

lemma update_returns:
  "\<not> throttled (last_run p) now \<Longrightarrow>
   update (Inr r) now p =
     (Inr (), p\<lparr>client := (client p)\<lparr>update_calls := Suc (update_calls (client p))\<rparr>,
               last_run := Some now, data := Dict r\<rparr>)"
  by (simp add: update_def async_update_def)

lemma update_Inl_iff:
  "fst (update resp now p) = Inl e \<longleftrightarrow> \<not> throttled (last_run p) now \<and> resp = Inl e"
  by (cases resp) (auto simp: update_def async_update_def)

lemma get_data_eq:
  "get_data p n = Inr (case data p of EmptyList \<Rightarrow> None | Dict d \<Rightarrow> map_of d n)"
proof (cases "data p")
  case EmptyList
  then show ?thesis by (simp add: get_data_def)
next
  case (Dict d)
  show ?thesis
  proof (cases "map_of d n")
    case None
    then have "n \<notin> set (map fst d)" by (simp add: map_of_eq_None_iff)
    with Dict None show ?thesis by (simp add: get_data_def)
  next
    case (Some v)
    then have "n \<in> set (map fst d)" by (metis map_of_eq_None_iff option.distinct(1) set_map)
    with Dict Some show ?thesis by (simp add: get_data_def)
  qed
qed

lemma example_probe_data: "data example_probe = Dict example_reading"
  by (simp add: example_probe_def)

lemma example_probe_not_throttled: "\<not> throttled (last_run example_probe) 200"
  by (simp add: throttled_def SCAN_INTERVAL_def example_probe_def)

lemma init_not_throttled: "\<not> throttled (last_run (init c)) now"
  by (simp add: throttled_def init_def)

lemma init_data: "data (init c) = EmptyList"
  by (simp add: init_def)

text \<open>
  Claim C8: \<^verbatim>\<open>get_data\<close> returns the cached value of a key that is present in the
  current reading and \<^verbatim>\<open>None\<close> for a key that is absent, also in the initial
  state, where no reading has been obtained. It raises in neither case.
\<close>

theorem get_data_cached:
  fixes p :: "('e, 'v) GrowattClientDataProbe"
  shows
  "get_data (init c :: ('e, 'v) GrowattClientDataProbe) n = Inr None \<and>
   (data p = EmptyList \<longrightarrow> get_data p n = Inr None) \<and>
   (data p = Dict d \<longrightarrow> get_data p n = Inr (map_of d n)) \<and>
   (data p = Dict d \<and> n \<notin> fst ` set d \<longrightarrow> get_data p n = Inr None) \<and>
   (data p = Dict d \<and> distinct (map fst d) \<and> (n, v) \<in> set d \<longrightarrow> get_data p n = Inr (Some v))"
  by (auto simp: get_data_eq init_def map_of_eq_None_iff)

theorem get_data_cached_witness:
  "get_data (init example_client :: (string, int) GrowattClientDataProbe) ''power_now'' = Inr None \<and>
   get_data example_probe ''power_now'' = Inr (Some 25) \<and>
   get_data example_probe ''grid_voltage'' = Inr None"
proof -
  have dist: "distinct (map fst example_reading)"
    and mem: "(''power_now'', 25) \<in> set example_reading"
    and nmem: "''grid_voltage'' \<notin> fst ` set example_reading"
    by (simp_all add: example_reading_def)
  note T1 = get_data_cached [of example_client "''power_now''" example_probe example_reading 25]
  note T2 = get_data_cached [of example_client "''grid_voltage''" example_probe example_reading 25]
  note T3 = get_data_cached [of example_client "''power_now''"
      "init example_client :: (string, int) GrowattClientDataProbe" example_reading 25]
  have e: "data (init example_client :: (string, int) GrowattClientDataProbe) = EmptyList"
    by (rule init_data)
  have 1: "get_data (init example_client :: (string, int) GrowattClientDataProbe) ''power_now'' = Inr None"
    using T3 e by blast
  have 2: "get_data example_probe ''power_now'' = Inr (Some 25)"
    using T1 example_probe_data dist mem by blast
  have 3: "get_data example_probe ''grid_voltage'' = Inr None"
    using T2 example_probe_data nmem by blast
  show ?thesis by (intro conjI 1 2 3)
qed

text \<open>
  Claim C10: formatting the probe with a key gives the empty string when
  \<^verbatim>\<open>get_data\<close> returns \<^verbatim>\<open>None\<close> for the key, and the string form of the
  cached value otherwise; it always returns a string and never raises. The method
  assigns to no attribute of the probe, so \<^const>\<open>format_probe\<close> has the string as
  its only result and the probe is the same afterwards.
\<close>

theorem format_probe_result:
  "(get_data p k = Inr None \<longrightarrow> format_probe str p k = Inr []) \<and>
   (get_data p k = Inr (Some v) \<longrightarrow> format_probe str p k = Inr (str v)) \<and>
   (\<exists>s. format_probe str p k = Inr s)"
  by (auto simp: format_probe_def get_data_eq split: option.splits pydata.splits)

theorem format_probe_result_witness:
  "format_probe (\<lambda>v. if v = 25 then ''25'' else ''?'') example_probe ''power_now'' = Inr ''25'' \<and>
   format_probe (\<lambda>v. if v = 25 then ''25'' else ''?'') example_probe ''grid_voltage'' = Inr []"
proof -
  have g1: "get_data example_probe ''power_now'' = Inr (Some 25)"
    and g2: "get_data example_probe ''grid_voltage'' = Inr None"
    by (simp_all add: get_data_eq example_probe_def example_reading_def)
  have 1: "format_probe (\<lambda>v. if v = 25 then ''25'' else ''?'') example_probe ''power_now'' = Inr ''25''"
    using format_probe_result [where p = example_probe and k = "''power_now''" and v = 25
        and str = "\<lambda>v. if v = 25 then ''25'' else ''?''"] g1
    by simp
  have 2: "format_probe (\<lambda>v. if v = 25 then ''25'' else ''?'') example_probe ''grid_voltage'' = Inr []"
    using format_probe_result [where p = example_probe and k = "''grid_voltage''"
        and str = "\<lambda>v. if v = 25 then ''25'' else ''?''"] g2
    by simp
  show ?thesis by (intro conjI 1 2)
qed

text \<open>
  Claim C2: when the client's update fails during a refresh, the cached data is what it
  was before, so \<^verbatim>\<open>get_data\<close> returns the previous reading's value for every
  key, and \<^verbatim>\<open>None\<close> when no reading had been obtained. In particular a
  failure after a successful fetch of a reading \<open>r\<close> leaves the values of
  \<open>r\<close> in place.
\<close>

theorem failed_update_keeps_data:
  "(fst (update resp now p) = Inl e \<longrightarrow>
      data (snd (update resp now p)) = data p \<and>
      get_data (snd (update resp now p)) n = get_data p n) \<and>
   (fst (update resp now p) = Inl e \<and> data p = EmptyList \<longrightarrow>
      get_data (snd (update resp now p)) n = Inr None) \<and>
   (\<not> throttled (last_run p) t1 \<longrightarrow>
      get_data (updates [(t1, Inr r), (t2, Inl e)] p) n = Inr (map_of r n))"
proof -
  have unchanged: "data (snd (update resp now p)) = data p"
    if "fst (update resp now p) = Inl e"
    using that by (auto simp: update_Inl_iff update_raises)
  have after: "data (updates [(t1, Inr r), (t2, Inl e)] p) = Dict r"
    if "\<not> throttled (last_run p) t1"
  proof -
    let ?q = "snd (update (Inr r) t1 p)"
    have q: "data ?q = Dict r" using that by (simp add: update_returns)
    have "data (snd (update (Inl e) t2 ?q)) = data ?q"
      by (cases "throttled (last_run ?q) t2") (simp_all add: update_throttled update_raises)
    with q show ?thesis by simp
  qed
  show ?thesis
    using unchanged after by (auto simp: get_data_eq)
qed

theorem failed_update_keeps_data_witness:
  "fst (update (Inl ''timeout'') 200 example_probe) = Inl ''timeout'' \<and>
   data (snd (update (Inl ''timeout'') 200 example_probe)) = Dict example_reading \<and>
   get_data (snd (update (Inl ''timeout'') 200 example_probe)) ''power_now'' = Inr (Some 25) \<and>
   get_data (snd (update (Inl ''timeout'' :: string + (string \<times> int) list) 0 (init example_client)))
     ''power_now'' = Inr None \<and>
   get_data (updates [(0, Inr example_reading), (40, Inl ''timeout'')] (init example_client))
     ''energy_today'' = Inr (Some 100)"
proof -
  have a: "fst (update (Inl ''timeout'') 200 example_probe) = Inl ''timeout''"
    by (simp add: update_raises example_probe_not_throttled)
  have b: "fst (update (Inl ''timeout'' :: string + (string \<times> int) list) 0 (init example_client))
             = Inl ''timeout''"
    by (simp add: update_raises init_not_throttled)
  have g: "get_data example_probe ''power_now'' = Inr (Some 25)"
    by (simp add: get_data_eq example_probe_def example_reading_def)
  have 1: "data (snd (update (Inl ''timeout'') 200 example_probe)) = Dict example_reading"
    and 2: "get_data (snd (update (Inl ''timeout'') 200 example_probe)) ''power_now'' = Inr (Some 25)"
    using failed_update_keeps_data [of "Inl ''timeout''" 200 example_probe "''timeout''" "''power_now''"]
      a g example_probe_data
    by simp_all
  have 3: "get_data (snd (update (Inl ''timeout'' :: string + (string \<times> int) list) 0
             (init example_client))) ''power_now'' = Inr None"
    using failed_update_keeps_data [of "Inl ''timeout''" 0 "init example_client" "''timeout''"
        "''power_now''"] b init_data
    by blast
  have 4: "get_data (updates [(0, Inr example_reading), (40, Inl ''timeout'')] (init example_client))
             ''energy_today'' = Inr (Some 100)"
  proof -
    have nt: "\<not> throttled (last_run (init example_client :: (string, int) GrowattClientDataProbe)) 0"
      by (rule init_not_throttled)
    show ?thesis
      using failed_update_keeps_data [of "Inl ''timeout''" 0 "init example_client" "''timeout''"
          "''energy_today''" 0 example_reading 40] nt
      by (simp add: example_reading_def)
  qed
  show ?thesis by (intro conjI a 1 2 3 4)
qed

text \<open>
  Claim C3 says that a client error during a refresh is swallowed by the probe and that
  the refresh returns normally. The method has no handler: on a fresh probe whose client
  raises, the call of \<^verbatim>\<open>update\<close> ends with that exception.
\<close>

theorem client_error_not_swallowed:
  "fst (update (Inl ''timeout'' :: string + (string \<times> int) list) 0 (init example_client)) = Inl ''timeout'' \<and>
   fst (update (Inl ''timeout'' :: string + (string \<times> int) list) 0 (init example_client)) \<noteq> Inr ()"
  by (simp add: update_def throttled_def async_update_def init_def)

text \<open>
  Claim C3, amended: a client error raised during a refresh is not handled by the
  probe. It reaches the caller of \<^verbatim>\<open>update\<close>, which returns normally only when
  the call was throttled or the client returned a reading; the cached data is unchanged
  by the failed call.
\<close>

theorem client_error_reaches_caller:
  "(\<not> throttled (last_run p) now \<longrightarrow>
      fst (update (Inl e) now p) = Inl e \<and>
      data (snd (update (Inl e) now p)) = data p) \<and>
   (fst (update resp now p) = Inl e \<longleftrightarrow> \<not> throttled (last_run p) now \<and> resp = Inl e)"
  by (auto simp: update_Inl_iff update_raises)

theorem client_error_reaches_caller_witness:
  "fst (update (Inl ''timeout'') 200 example_probe) = Inl ''timeout'' \<and>
   data (snd (update (Inl ''timeout'') 200 example_probe)) = Dict example_reading"
  using client_error_reaches_caller [of example_probe 200 "''timeout''" "Inl ''timeout''"]
    example_probe_not_throttled example_probe_data
  by simp

text \<open>Calls that do not fetch leave the cached data as it is, one call or many.\<close>

lemma init_client: "client (init c) = c"
  by (simp add: init_def)

lemma update_Inl_data: "data (snd (update (Inl e) now p)) = data p"
  by (cases "throttled (last_run p) now") (simp_all add: update_throttled update_raises)

lemma update_no_fetch_data:
  "throttled (last_run p) now \<or> isl resp \<Longrightarrow> data (snd (update resp now p)) = data p"
  by (cases resp) (auto simp: update_throttled update_Inl_data)

lemma not_fetched_data: "\<not> fetched calls p \<Longrightarrow> data (updates calls p) = data p"
proof (induction calls arbitrary: p)
  case Nil
  then show ?case by simp
next
  case (Cons call calls)
  obtain now resp where call: "call = (now, resp)" by (cases call)
  from Cons.prems call have skip: "throttled (last_run p) now \<or> isl resp"
    and rest: "\<not> fetched calls (snd (update resp now p))"
    by (auto split: if_splits)
  from Cons.IH [OF rest] update_no_fetch_data [OF skip] call show ?case by simp
qed

text \<open>
  Claim C5 says that \<^verbatim>\<open>has_data\<close> is true after any successful refresh. When
  the client returns an empty mapping, the refresh succeeds (the client was called and
  the call of \<^verbatim>\<open>update\<close> returned normally) and \<^verbatim>\<open>has_data\<close> is still
  false, since \<^verbatim>\<open>bool({})\<close> is false.
\<close>

theorem has_data_empty_reading:
  "fst (update (Inr [] :: string + (string \<times> int) list) 0 (init example_client)) = Inr () \<and>
   update_calls (client (snd (update (Inr [] :: string + (string \<times> int) list) 0 (init example_client)))) = 1 \<and>
   \<not> has_data (snd (update (Inr [] :: string + (string \<times> int) list) 0 (init example_client)))"
  by (simp add: update_def async_update_def throttled_def has_data_def example_client_def init_def)

text \<open>
  Claim C5, amended: \<^verbatim>\<open>has_data\<close> is false on a new probe and stays false as
  long as no refresh has fetched successfully; a throttled or failed refresh does not
  change it; after a refresh that fetched a reading it is true exactly when that reading
  is not empty.
\<close>

theorem has_data_iff_nonempty:
  fixes p :: "('e, 'v) GrowattClientDataProbe"
  shows
  "\<not> has_data (init c :: ('e, 'v) GrowattClientDataProbe) \<and>
   (\<not> fetched calls (init c :: ('e, 'v) GrowattClientDataProbe) \<longrightarrow>
      \<not> has_data (updates calls (init c))) \<and>
   (throttled (last_run p) now \<or> isl resp \<longrightarrow>
      has_data (snd (update resp now p)) = has_data p) \<and>
   (\<not> throttled (last_run p) now \<longrightarrow>
      has_data (snd (update (Inr r) now p)) = (r \<noteq> []))"
proof -
  have 1: "\<not> has_data (init c :: ('e, 'v) GrowattClientDataProbe)"
    by (simp add: has_data_def init_def)
  have 2: "\<not> has_data (updates calls (init c :: ('e, 'v) GrowattClientDataProbe))"
    if "\<not> fetched calls (init c :: ('e, 'v) GrowattClientDataProbe)"
    using not_fetched_data [OF that] 1 by (simp add: has_data_def)
  have 3: "has_data (snd (update resp now p)) = has_data p"
    if "throttled (last_run p) now \<or> isl resp"
    using update_no_fetch_data [OF that] by (simp add: has_data_def)
  have 4: "has_data (snd (update (Inr r) now p)) = (r \<noteq> [])"
    if "\<not> throttled (last_run p) now"
    using that by (simp add: update_returns has_data_def)
  show ?thesis using 1 2 3 4 by blast
qed

theorem has_data_iff_nonempty_witness:
  "\<not> has_data (updates [(0, Inl ''timeout''), (10, Inr example_reading)] (init example_client)) \<and>
   has_data (snd (update (Inl ''timeout'') 200 example_probe)) \<and>
   has_data (snd (update (Inr example_reading) 0 (init example_client)))"
proof -
  let ?p0 = "init example_client :: (string, int) GrowattClientDataProbe"
  let ?calls = "[(0, Inl ''timeout''), (10, Inr example_reading)]"
  note T1 = has_data_iff_nonempty [of example_client ?calls example_probe 200 "Inl ''timeout''"
      example_reading]
  note T2 = has_data_iff_nonempty [of example_client ?calls ?p0 0 "Inl ''timeout''" example_reading]
  have nf: "\<not> fetched ?calls ?p0"
    by (simp add: update_def async_update_def throttled_def SCAN_INTERVAL_def init_def)
  have hd: "has_data example_probe"
    by (simp add: has_data_def example_probe_def example_reading_def)
  have ne: "example_reading \<noteq> []" by (simp add: example_reading_def)
  have nt: "\<not> throttled (last_run ?p0) 0" by (rule init_not_throttled)
  have 1: "\<not> has_data (updates ?calls ?p0)" using T1 nf by blast
  have 2: "has_data (snd (update (Inl ''timeout'') 200 example_probe))" using T1 hd by simp
  have 3: "has_data (snd (update (Inr example_reading) 0 ?p0))" using T2 nt ne by blast
  show ?thesis by (intro conjI 1 2 3)
qed

text \<open>
  The throttle does not hold for ever: on a new probe, two calls 45 seconds apart both
  reach the client.
\<close>

lemma two_fetches_when_apart:
  "update_calls (client (updates [(0, Inr example_reading), (45, Inr example_reading)]
     (init example_client))) = 2"
  by (simp add: update_def async_update_def throttled_def SCAN_INTERVAL_def init_def
      example_client_def)

text \<open>
  Claim C1: a call of \<^verbatim>\<open>update\<close> made while less than the interval of 30
  seconds has elapsed since the last call that fetched does nothing: it returns without
  calling the client and leaves the probe as it is. A call that is not throttled calls
  the client once and becomes the last call that fetched. Hence two calls less than the
  interval apart, the first of them not throttled (as on a new probe), make exactly one
  call of the client's \<^verbatim>\<open>async_update\<close>.
\<close>

theorem throttle_single_fetch:
  fixes p :: "('e, 'v) GrowattClientDataProbe"
  shows
  "(last_run p = Some t0 \<and> now - t0 < SCAN_INTERVAL \<longrightarrow> update resp now p = (Inr (), p)) \<and>
   (\<not> throttled (last_run p) t1 \<longrightarrow>
      last_run (snd (update r1 t1 p)) = Some t1 \<and>
      update_calls (client (snd (update r1 t1 p))) = Suc (update_calls (client p))) \<and>
   (\<not> throttled (last_run p) t1 \<and> t2 - t1 < SCAN_INTERVAL \<longrightarrow>
      update r2 t2 (snd (update r1 t1 p)) = (Inr (), snd (update r1 t1 p)) \<and>
      update_calls (client (updates [(t1, r1), (t2, r2)] p)) = Suc (update_calls (client p))) \<and>
   (t2 - t1 < SCAN_INTERVAL \<longrightarrow>
      update_calls (client (updates [(t1, r1), (t2, r2)] (init c :: ('e, 'v) GrowattClientDataProbe)))
        = Suc (update_calls c))"
proof -
  have noop: "update resp now q = (Inr (), q)"
    if "last_run q = Some t0" "now - t0 < SCAN_INTERVAL" for q :: "('e, 'v) GrowattClientDataProbe" and t0 now resp
    using that by (simp add: update_throttled throttled_def)
  have first: "last_run (snd (update r1 t1 q)) = Some t1 \<and>
      update_calls (client (snd (update r1 t1 q))) = Suc (update_calls (client q))"
    if "\<not> throttled (last_run q) t1" for q :: "('e, 'v) GrowattClientDataProbe"
    using that by (cases r1) (simp_all add: update_raises update_returns)
  have twice: "update r2 t2 (snd (update r1 t1 q)) = (Inr (), snd (update r1 t1 q)) \<and>
      update_calls (client (updates [(t1, r1), (t2, r2)] q)) = Suc (update_calls (client q))"
    if "\<not> throttled (last_run q) t1" "t2 - t1 < SCAN_INTERVAL" for q :: "('e, 'v) GrowattClientDataProbe"
  proof -
    from first [OF that(1)] have l: "last_run (snd (update r1 t1 q)) = Some t1"
      and n: "update_calls (client (snd (update r1 t1 q))) = Suc (update_calls (client q))"
      by simp_all
    from noop [OF l that(2)] have "update r2 t2 (snd (update r1 t1 q)) = (Inr (), snd (update r1 t1 q))" .
    with n show ?thesis by simp
  qed
  have fresh: "update_calls (client (updates [(t1, r1), (t2, r2)] (init c :: ('e, 'v) GrowattClientDataProbe)))
        = Suc (update_calls c)"
    if "t2 - t1 < SCAN_INTERVAL"
  proof -
    have "\<not> throttled (last_run (init c :: ('e, 'v) GrowattClientDataProbe)) t1"
      by (rule init_not_throttled)
    from twice [OF this that]
    have "update_calls (client (updates [(t1, r1), (t2, r2)] (init c :: ('e, 'v) GrowattClientDataProbe)))
            = Suc (update_calls (client (init c :: ('e, 'v) GrowattClientDataProbe)))"
      by (rule conjunct2)
    then show ?thesis by (simp only: init_client)
  qed
  show ?thesis using noop first twice fresh by blast
qed

theorem throttle_single_fetch_witness:
  "update (Inr example_reading) 110 example_probe = (Inr (), example_probe) \<and>
   last_run (snd (update (Inr example_reading) 200 example_probe)) = Some 200 \<and>
   update_calls (client (snd (update (Inr example_reading) 200 example_probe))) = 1 \<and>
   update (Inl ''timeout'') 220 (snd (update (Inr example_reading) 200 example_probe))
     = (Inr (), snd (update (Inr example_reading) 200 example_probe)) \<and>
   update_calls (client (updates [(200, Inr example_reading), (220, Inl ''timeout'')] example_probe)) = 1 \<and>
   update_calls (client (updates [(0, Inr example_reading), (29, Inr example_reading)]
     (init example_client))) = 1"
proof -
  note T1 = throttle_single_fetch [where p = example_probe and ?t0.0 = 100 and now = 110
      and resp = "Inr example_reading" and ?t1.0 = 200 and ?r1.0 = "Inr example_reading"
      and ?t2.0 = 220 and ?r2.0 = "Inl ''timeout''" and c = example_client]
  note T2 = throttle_single_fetch [where p = example_probe and ?t0.0 = 100 and now = 110
      and resp = "Inr example_reading" and ?t1.0 = 0 and ?r1.0 = "Inr example_reading"
      and ?t2.0 = 29 and ?r2.0 = "Inr example_reading" and c = example_client]
  have l: "last_run example_probe = Some 100" by (simp add: example_probe_def)
  have c: "update_calls (client example_probe) = 0" "update_calls example_client = 0"
    by (simp_all add: example_probe_def example_client_def)
  have d: "(110::int) - 100 < SCAN_INTERVAL" "(220::int) - 200 < SCAN_INTERVAL"
    "(29::int) - 0 < SCAN_INTERVAL"
    by (simp_all add: SCAN_INTERVAL_def)
  have 1: "update (Inr example_reading) 110 example_probe = (Inr (), example_probe)"
    using T1 l d(1) by blast
  have 2: "last_run (snd (update (Inr example_reading) 200 example_probe)) = Some 200"
    and 3: "update_calls (client (snd (update (Inr example_reading) 200 example_probe))) = 1"
    using T1 example_probe_not_throttled c(1) by simp_all
  have 4: "update (Inl ''timeout'') 220 (snd (update (Inr example_reading) 200 example_probe))
     = (Inr (), snd (update (Inr example_reading) 200 example_probe))"
    and 5: "update_calls (client (updates [(200, Inr example_reading), (220, Inl ''timeout'')]
      example_probe)) = 1"
    using T1 example_probe_not_throttled d(2) c(1) by simp_all
  have 6: "update_calls (client (updates [(0, Inr example_reading), (29, Inr example_reading)]
     (init example_client))) = 1"
    using T2 d(3) c(2) by simp
  show ?thesis by (intro conjI 1 2 3 4 5 6)
qed

subsection \<open>Setup\<close>

text \<open>
  What \<^const>\<open>async_setup_platform\<close> returns: it fails exactly with the exception
  of the hardware information request, and otherwise builds one sensor for each
  attribute of the catalogue, in order.
\<close>

lemma setup_Inr:
  assumes "async_setup_platform DOMAIN mk_client config = Inr (probe, sensors)"
    and "c = mk_client (CONF_PORT config) (CONF_ADDRESS config)"
    and "nm = (if CONF_NAME config = [] then get_serial_number c else CONF_NAME config)"
  shows "probe = init c"
    and "sensors = map (\<lambda>a. sensor_init DOMAIN nm (get_serial_number c)
           (create_sensor_entity_description a)) (get_attributes c)"
  using assms
  by (auto simp: async_setup_platform_def Let_def split: sum.splits)

lemma setup_succeeds:
  assumes "hardware_info (mk_client (CONF_PORT config) (CONF_ADDRESS config)) = Inr serial"
  shows "\<exists>probe sensors. async_setup_platform DOMAIN mk_client config = Inr (probe, sensors)"
  using assms by (simp add: async_setup_platform_def Let_def update_hardware_info_def)

lemma setup_fails:
  assumes "hardware_info (mk_client (CONF_PORT config) (CONF_ADDRESS config)) = Inl e"
  shows "async_setup_platform DOMAIN mk_client config = Inl e"
  using assms by (simp add: async_setup_platform_def Let_def update_hardware_info_def)

lemma unique_id_inj: "serial @ ''_'' @ k = serial @ ''_'' @ k' \<Longrightarrow> k = k'"
  by simp

lemma distinct_unique_ids:
  assumes "distinct (map name as)"
  shows "distinct (map (\<lambda>a. attr_unique_id (sensor_init DOMAIN nm serial
           (create_sensor_entity_description a))) as)"
proof -
  have "distinct (map (\<lambda>a. serial @ ''_'' @ name a) as)"
    using assms by (induction as) auto
  then show ?thesis
    by (simp add: sensor_init_def create_sensor_entity_description_def)
qed

lemma example_client_facts:
  "hardware_info example_client = Inr ''SN123''"
  "get_serial_number example_client = ''SN123''"
  "get_attributes example_client =
     [\<lparr>name = ''power_now'', description = ''Power now'', unit = ''kW''\<rparr>,
      \<lparr>name = ''energy_today'', description = ''Energy today'', unit = ''kWh''\<rparr>]"
  by (simp_all add: example_client_def get_serial_number_def get_attributes_def)

text \<open>
  Claim C7: for a catalogue of \<open>N\<close> attributes setup produces exactly \<open>N\<close>
  sensors; the sensor of an attribute has the unique id of the serial number, an
  underscore and the attribute's name, and the display name of the device name, a space
  and the attribute's label (its description). When the attribute names are pairwise
  distinct, so are the unique ids.
\<close>

theorem setup_one_sensor_per_attribute:
  fixes probe :: "('e, 'v) GrowattClientDataProbe"
  assumes "async_setup_platform DOMAIN mk_client config = Inr (probe, sensors)"
    and "c = mk_client (CONF_PORT config) (CONF_ADDRESS config)"
    and "nm = (if CONF_NAME config = [] then get_serial_number c else CONF_NAME config)"
  shows "length sensors = length (get_attributes c) \<and>
    (\<forall>i < length sensors.
       attr_unique_id (sensors ! i) = get_serial_number c @ ''_'' @ name (get_attributes c ! i) \<and>
       attr_name (sensors ! i) = nm @ '' '' @ description (get_attributes c ! i)) \<and>
    (distinct (map name (get_attributes c)) \<longrightarrow> distinct (map attr_unique_id sensors))"
proof -
  have s: "sensors = map (\<lambda>a. sensor_init DOMAIN nm (get_serial_number c)
           (create_sensor_entity_description a)) (get_attributes c)"
    using assms by (rule setup_Inr(2))
  have 1: "length sensors = length (get_attributes c)" by (simp add: s)
  have 2: "attr_unique_id (sensors ! i) = get_serial_number c @ ''_'' @ name (get_attributes c ! i) \<and>
       attr_name (sensors ! i) = nm @ '' '' @ description (get_attributes c ! i)"
    if "i < length sensors" for i
    using that by (simp add: s sensor_init_def create_sensor_entity_description_def)
  have 3: "distinct (map attr_unique_id sensors)" if "distinct (map name (get_attributes c))"
    using distinct_unique_ids [OF that] by (simp add: s comp_def)
  show ?thesis using 1 2 3 by blast
qed

theorem setup_one_sensor_per_attribute_witness:
  "\<exists>(probe :: (string, int) GrowattClientDataProbe) sensors.
     async_setup_platform ''growatt_solar_modbus'' (\<lambda>p a. example_client) example_config
       = Inr (probe, sensors) \<and>
     length sensors = 2 \<and>
     attr_unique_id (sensors ! 0) = ''SN123_power_now'' \<and>
     attr_name (sensors ! 0) = ''Inverter Power now'' \<and>
     attr_unique_id (sensors ! 1) = ''SN123_energy_today'' \<and>
     attr_name (sensors ! 1) = ''Inverter Energy today'' \<and>
     distinct (map attr_unique_id sensors)"
proof -
  let ?mk = "\<lambda>(p :: string) (a :: int). example_client"
  obtain probe :: "(string, int) GrowattClientDataProbe" and sensors
    where s: "async_setup_platform ''growatt_solar_modbus'' ?mk example_config = Inr (probe, sensors)"
    using setup_succeeds [of ?mk example_config "''SN123''" "''growatt_solar_modbus''"]
      example_client_facts(1)
    by blast
  have nm: "''Inverter'' = (if CONF_NAME example_config = [] then get_serial_number example_client
              else CONF_NAME example_config)"
    by (simp add: example_config_def)
  note T = setup_one_sensor_per_attribute [OF s refl nm]
  from T have len: "length sensors = 2"
    by (simp add: example_client_facts)
  from T have each: "\<forall>i < length sensors.
       attr_unique_id (sensors ! i) = get_serial_number example_client @ ''_'' @
         name (get_attributes example_client ! i) \<and>
       attr_name (sensors ! i) = ''Inverter'' @ '' '' @
         description (get_attributes example_client ! i)"
    by blast
  from each len have 0: "attr_unique_id (sensors ! 0) = ''SN123_power_now''"
      "attr_name (sensors ! 0) = ''Inverter Power now''"
    by (simp_all add: example_client_facts)
  from each len have 1: "attr_unique_id (sensors ! 1) = ''SN123_energy_today''"
      "attr_name (sensors ! 1) = ''Inverter Energy today''"
    by (simp_all add: example_client_facts)
  from T have d: "distinct (map attr_unique_id sensors)"
    by (simp add: example_client_facts)
  from s len 0 1 d show ?thesis by blast
qed

text \<open>
  Claim C9: a configuration without the port option is rejected; in an accepted
  configuration the address is 1 when the option is absent and the name is the empty
  string when the option is absent; and when the configured name is the empty string,
  the device and every sensor are named after the serial number fetched from the client.
\<close>

theorem config_defaults:
  fixes probe :: "('e, 'v) GrowattClientDataProbe"
  shows
  "(port raw = None \<longrightarrow> PLATFORM_SCHEMA positive_int raw = Inl RequiredKeyMissing) \<and>
   (PLATFORM_SCHEMA positive_int raw = Inr config \<longrightarrow>
      port raw = Some (CONF_PORT config) \<and>
      CONF_ADDRESS config = (case address raw of None \<Rightarrow> 1 | Some a \<Rightarrow> a) \<and>
      CONF_NAME config = (case display_name raw of None \<Rightarrow> [] | Some n \<Rightarrow> n)) \<and>
   (async_setup_platform DOMAIN mk_client config = Inr (probe, sensors) \<and> CONF_NAME config = [] \<longrightarrow>
      (\<forall>s \<in> set sensors.
         di_name (attr_device_info s)
           = get_serial_number (mk_client (CONF_PORT config) (CONF_ADDRESS config)) \<and>
         attr_name s
           = get_serial_number (mk_client (CONF_PORT config) (CONF_ADDRESS config)) @ '' '' @
             ed_name (entity_description s)))"
proof -
  have 1: "PLATFORM_SCHEMA positive_int raw = Inl RequiredKeyMissing" if "port raw = None"
    using that by (simp add: PLATFORM_SCHEMA_def)
  have 2: "port raw = Some (CONF_PORT config) \<and>
      CONF_ADDRESS config = (case address raw of None \<Rightarrow> 1 | Some a \<Rightarrow> a) \<and>
      CONF_NAME config = (case display_name raw of None \<Rightarrow> [] | Some n \<Rightarrow> n)"
    if "PLATFORM_SCHEMA positive_int raw = Inr config"
    using that by (auto simp: PLATFORM_SCHEMA_def Let_def split: option.splits if_splits)
  have 3: "di_name (attr_device_info s)
           = get_serial_number (mk_client (CONF_PORT config) (CONF_ADDRESS config)) \<and>
         attr_name s
           = get_serial_number (mk_client (CONF_PORT config) (CONF_ADDRESS config)) @ '' '' @
             ed_name (entity_description s)"
    if ok: "async_setup_platform DOMAIN mk_client config = Inr (probe, sensors)"
      and empty: "CONF_NAME config = []" and s: "s \<in> set sensors" for s
  proof -
    let ?c = "mk_client (CONF_PORT config) (CONF_ADDRESS config)"
    have nm: "get_serial_number ?c = (if CONF_NAME config = [] then get_serial_number ?c
                else CONF_NAME config)"
      using empty by simp
    from setup_Inr(2) [OF ok refl nm] s show ?thesis
      by (auto simp: sensor_init_def)
  qed
  show ?thesis using 1 2 3 by blast
qed

theorem config_defaults_witness:
  "PLATFORM_SCHEMA (\<lambda>a. 0 \<le> a) \<lparr>port = None, address = Some 3, display_name = Some ''Roof''\<rparr>
     = Inl RequiredKeyMissing \<and>
   (\<exists>config (probe :: (string, int) GrowattClientDataProbe) sensors.
      PLATFORM_SCHEMA (\<lambda>a. 0 \<le> a) example_platform_config = Inr config \<and>
      CONF_PORT config = ''/dev/ttyUSB0'' \<and> CONF_ADDRESS config = 1 \<and> CONF_NAME config = [] \<and>
      async_setup_platform ''growatt_solar_modbus'' (\<lambda>p a. example_client) config
        = Inr (probe, sensors) \<and>
      length sensors = 2 \<and>
      di_name (attr_device_info (sensors ! 0)) = ''SN123'' \<and>
      attr_name (sensors ! 0) = ''SN123 Power now'' \<and>
      di_name (attr_device_info (sensors ! 1)) = ''SN123'' \<and>
      attr_name (sensors ! 1) = ''SN123 Energy today'')"
proof -
  let ?mk = "\<lambda>(p :: string) (a :: int). example_client"
  let ?pi = "\<lambda>a :: int. 0 \<le> a"
  let ?bad = "\<lparr>port = None, address = Some 3, display_name = Some ''Roof''\<rparr>"
  obtain config where c: "PLATFORM_SCHEMA ?pi example_platform_config = Inr config"
    by (simp add: PLATFORM_SCHEMA_def example_platform_config_def)
  obtain probe :: "(string, int) GrowattClientDataProbe" and sensors
    where s: "async_setup_platform ''growatt_solar_modbus'' ?mk config = Inr (probe, sensors)"
    using setup_succeeds [of ?mk config "''SN123''" "''growatt_solar_modbus''"]
      example_client_facts(1)
    by blast
  note T1 = config_defaults [where raw = ?bad and positive_int = ?pi and config = config
      and DOMAIN = "''growatt_solar_modbus''" and mk_client = ?mk and probe = probe
      and sensors = sensors]
  note T2 = config_defaults [where raw = example_platform_config and positive_int = ?pi
      and config = config and DOMAIN = "''growatt_solar_modbus''" and mk_client = ?mk
      and probe = probe and sensors = sensors]
  have 1: "PLATFORM_SCHEMA ?pi ?bad = Inl RequiredKeyMissing"
    using T1 by simp
  from T2 c have p: "CONF_PORT config = ''/dev/ttyUSB0''" and a: "CONF_ADDRESS config = 1"
    and n: "CONF_NAME config = []"
    by (simp_all add: example_platform_config_def)
  from T2 s n have each: "\<forall>s \<in> set sensors.
      di_name (attr_device_info s) = ''SN123'' \<and>
      attr_name s = ''SN123'' @ '' '' @ ed_name (entity_description s)"
    by (simp add: example_client_facts)
  have sens: "sensors = map (\<lambda>a. sensor_init ''growatt_solar_modbus'' ''SN123'' ''SN123''
           (create_sensor_entity_description a)) (get_attributes example_client)"
    using setup_Inr(2) [OF s refl, of "''SN123''"] n by (simp add: example_client_facts)
  have len: "length sensors = 2"
    and e0: "ed_name (entity_description (sensors ! 0)) = ''Power now''"
    and e1: "ed_name (entity_description (sensors ! 1)) = ''Energy today''"
    by (simp_all add: sens example_client_facts sensor_init_def create_sensor_entity_description_def)
  from len have m0: "sensors ! 0 \<in> set sensors" and m1: "sensors ! 1 \<in> set sensors"
    by simp_all
  from each m0 e0 have 2: "di_name (attr_device_info (sensors ! 0)) = ''SN123''"
    "attr_name (sensors ! 0) = ''SN123 Power now''"
    by simp_all
  from each m1 e1 have 3: "di_name (attr_device_info (sensors ! 1)) = ''SN123''"
    "attr_name (sensors ! 1) = ''SN123 Energy today''"
    by simp_all
  from 1 c p a n s len 2 3 show ?thesis by blast
qed

end
